theory Spec2Isabelle
  imports Complex_Main
begin

section \<open>Data model\<close>

text \<open>
  Modelled from the spec: the declaration of \<open>models.Person\<close> is not among the sources.
  The fields are the ones the handlers and \<open>EnrichPerson\<close> read and write; the three
  enrichment fields are Go pointers (\<open>person.Age = &agifyRes.Age\<close>), \<open>nil\<close> being
  \<open>None\<close>. The pointee is a local of \<open>EnrichPerson\<close> that nothing writes after the
  assignment, so the pointer is modelled by the value it points to.
\<close>

record Person =
  ID :: nat
  Name :: string
  Surname :: string
  Patronymic :: "string option"
  Age :: "int option"
  Gender :: "string option"
  Nationality :: "string option"

text \<open>\<open>PersonInput\<close>, the payload bound by the create and update handlers.\<close>

record PersonInput =
  InputName :: string
  InputSurname :: string
  InputPatronymic :: "string option"

text \<open>The three response shapes the lookups are decoded into.\<close>

record AgifyResponse =
  AgifyAge :: int

record GenderizeResponse =
  GenderizeGender :: string

record CountryEntry =
  CountryID :: string
  Probability :: rat

record NationalizeResponse =
  Country :: "CountryEntry list"

section \<open>JSON bodies and their decoding\<close>

text \<open>
  A response body either holds no complete JSON value (empty, cut off, a syntax error, a
  read that failed) or starts with one. A number literal written without fraction and
  exponent is \<open>JInt\<close>; any other number literal is \<open>JFrac\<close> with its exact value.
  The members of an object keep their order and their duplicates.
\<close>

datatype json =
    JNull
  | JBool bool
  | JInt int
  | JFrac rat
  | JString string
  | JArray "json list"
  | JObject "(string \<times> json) list"

datatype body = Malformed | Parsed json

datatype decode_error = SyntaxError | UnmarshalTypeError

text \<open>
  \<open>encoding/json\<close> matches an object key to a struct field by its \<open>json\<close> tag,
  ignoring the case of letters. The tags of this program are ASCII without \<open>k\<close> or
  \<open>s\<close>, so folding ASCII letters decides the match.
\<close>

fun upper :: "char \<Rightarrow> char" where
  "upper (Char b0 b1 b2 b3 b4 b5 b6 b7) =
     (if 97 \<le> (of_char (Char b0 b1 b2 b3 b4 b5 b6 b7) :: nat)
        \<and> (of_char (Char b0 b1 b2 b3 b4 b5 b6 b7) :: nat) \<le> 122
      then Char b0 b1 b2 b3 b4 False b6 b7
      else Char b0 b1 b2 b3 b4 b5 b6 b7)"

definition foldName :: "string \<Rightarrow> string" where
  "foldName s = map upper s"

definition matches :: "string \<Rightarrow> string \<Rightarrow> bool" where
  "matches tag key = (foldName key = foldName tag)"

text \<open>
  Decoding a JSON value into a field that currently holds \<open>cur\<close>. \<open>null\<close> leaves a
  non-pointer field as it is; a value of the wrong kind, an integer literal outside
  the 64-bit range and a number too large for \<open>float64\<close> are type errors. The value of
  \<open>Probability\<close> is kept exact: the program never reads it.
\<close>

definition decode_int :: "json \<Rightarrow> int \<Rightarrow> decode_error + int" where
  "decode_int v cur =
     (case v of
        JNull \<Rightarrow> Inr cur
      | JInt n \<Rightarrow> if - (2 ^ 63) \<le> n \<and> n < 2 ^ 63 then Inr n else Inl UnmarshalTypeError
      | _ \<Rightarrow> Inl UnmarshalTypeError)"

definition decode_string :: "json \<Rightarrow> string \<Rightarrow> decode_error + string" where
  "decode_string v cur =
     (case v of
        JNull \<Rightarrow> Inr cur
      | JString s \<Rightarrow> Inr s
      | _ \<Rightarrow> Inl UnmarshalTypeError)"

definition float64_fits :: "rat \<Rightarrow> bool" where
  "float64_fits q = (\<bar>q\<bar> < 2 ^ 1024 - 2 ^ 970)"

definition decode_float :: "json \<Rightarrow> rat \<Rightarrow> decode_error + rat" where
  "decode_float v cur =
     (case v of
        JNull \<Rightarrow> Inr cur
      | JInt n \<Rightarrow> if float64_fits (of_int n) then Inr (of_int n) else Inl UnmarshalTypeError
      | JFrac q \<Rightarrow> if float64_fits q then Inr q else Inl UnmarshalTypeError
      | _ \<Rightarrow> Inl UnmarshalTypeError)"

text \<open>The members of an object are applied in order; a key that matches no field is skipped.\<close>

fun agify_members :: "(string \<times> json) list \<Rightarrow> AgifyResponse \<Rightarrow> decode_error + AgifyResponse" where
  "agify_members [] r = Inr r"
| "agify_members ((k, v) # ms) r =
     (if matches ''age'' k
      then (case decode_int v (AgifyAge r) of
              Inl e \<Rightarrow> Inl e
            | Inr n \<Rightarrow> agify_members ms (r\<lparr>AgifyAge := n\<rparr>))
      else agify_members ms r)"

definition decode_agify :: "json \<Rightarrow> decode_error + AgifyResponse" where
  "decode_agify j =
     (case j of
        JNull \<Rightarrow> Inr \<lparr>AgifyAge = 0\<rparr>
      | JObject ms \<Rightarrow> agify_members ms \<lparr>AgifyAge = 0\<rparr>
      | _ \<Rightarrow> Inl UnmarshalTypeError)"

fun genderize_members ::
  "(string \<times> json) list \<Rightarrow> GenderizeResponse \<Rightarrow> decode_error + GenderizeResponse" where
  "genderize_members [] r = Inr r"
| "genderize_members ((k, v) # ms) r =
     (if matches ''gender'' k
      then (case decode_string v (GenderizeGender r) of
              Inl e \<Rightarrow> Inl e
            | Inr s \<Rightarrow> genderize_members ms (r\<lparr>GenderizeGender := s\<rparr>))
      else genderize_members ms r)"

definition decode_genderize :: "json \<Rightarrow> decode_error + GenderizeResponse" where
  "decode_genderize j =
     (case j of
        JNull \<Rightarrow> Inr \<lparr>GenderizeGender = []\<rparr>
      | JObject ms \<Rightarrow> genderize_members ms \<lparr>GenderizeGender = []\<rparr>
      | _ \<Rightarrow> Inl UnmarshalTypeError)"

fun entry_members :: "(string \<times> json) list \<Rightarrow> CountryEntry \<Rightarrow> decode_error + CountryEntry" where
  "entry_members [] c = Inr c"
| "entry_members ((k, v) # ms) c =
     (if matches ''country_id'' k
      then (case decode_string v (CountryID c) of
              Inl e \<Rightarrow> Inl e
            | Inr s \<Rightarrow> entry_members ms (c\<lparr>CountryID := s\<rparr>))
      else if matches ''probability'' k
      then (case decode_float v (Probability c) of
              Inl e \<Rightarrow> Inl e
            | Inr q \<Rightarrow> entry_members ms (c\<lparr>Probability := q\<rparr>))
      else entry_members ms c)"

definition decode_entry :: "json \<Rightarrow> decode_error + CountryEntry" where
  "decode_entry j =
     (case j of
        JNull \<Rightarrow> Inr \<lparr>CountryID = [], Probability = 0\<rparr>
      | JObject ms \<Rightarrow> entry_members ms \<lparr>CountryID = [], Probability = 0\<rparr>
      | _ \<Rightarrow> Inl UnmarshalTypeError)"

text \<open>
  A JSON array replaces the slice: the length is reset and each element is decoded
  and appended.
\<close>

fun decode_entries :: "json list \<Rightarrow> decode_error + CountryEntry list" where
  "decode_entries [] = Inr []"
| "decode_entries (j # js) =
     (case decode_entry j of
        Inl e \<Rightarrow> Inl e
      | Inr c \<Rightarrow> (case decode_entries js of
                    Inl e \<Rightarrow> Inl e
                  | Inr cs \<Rightarrow> Inr (c # cs)))"

definition decode_country :: "json \<Rightarrow> decode_error + CountryEntry list" where
  "decode_country v =
     (case v of
        JNull \<Rightarrow> Inr []
      | JArray js \<Rightarrow> decode_entries js
      | _ \<Rightarrow> Inl UnmarshalTypeError)"

fun nationalize_members ::
  "(string \<times> json) list \<Rightarrow> NationalizeResponse \<Rightarrow> decode_error + NationalizeResponse" where
  "nationalize_members [] r = Inr r"
| "nationalize_members ((k, v) # ms) r =
     (if matches ''country'' k
      then (case decode_country v of
              Inl e \<Rightarrow> Inl e
            | Inr cs \<Rightarrow> nationalize_members ms (r\<lparr>Country := cs\<rparr>))
      else nationalize_members ms r)"

definition decode_nationalize :: "json \<Rightarrow> decode_error + NationalizeResponse" where
  "decode_nationalize j =
     (case j of
        JNull \<Rightarrow> Inr \<lparr>Country = []\<rparr>
      | JObject ms \<Rightarrow> nationalize_members ms \<lparr>Country = []\<rparr>
      | _ \<Rightarrow> Inl UnmarshalTypeError)"

text \<open>
  \<open>json.NewDecoder(resp.Body).Decode(target)\<close>: the dynamic type of \<open>target\<close> selects
  the decoder, which is why the model passes the decoder where the source passes the
  pointer.
\<close>

definition Decode :: "body \<Rightarrow> (json \<Rightarrow> decode_error + 'a) \<Rightarrow> decode_error + 'a" where
  "Decode b target = (case b of Malformed \<Rightarrow> Inl SyntaxError | Parsed j \<Rightarrow> target j)"

section \<open>The world: network and log\<close>

text \<open>
  \<open>client.Get\<close> ends within the client's timeout with a transport error or a response.
  What the network answers to the \<open>n\<close>-th request of the run for a given URL is the
  oracle \<open>net\<close>; \<open>sent\<close> records the URLs requested so far, in order.
\<close>

datatype http_result = TransportError string | Response int body

datatype error =
    RequestError string string
  | StatusError string int
  | ParseError string decode_error

datatype db_error = ErrRecordNotFound | OtherError string

datatype level = DebugLevel | InfoLevel | WarnLevel | ErrorLevel

text \<open>
  One constructor for each format string of \<open>EnrichPerson\<close>, \<open>fetchData\<close> and
  \<open>UpdatePerson\<close>, holding the arguments of the call.
\<close>

datatype message =
    EnrichStarted string
  | AgeFailed string error
  | AgeEnriched string int
  | GenderFailed string error
  | GenderEnriched string string
  | NationalityFailed string error
  | NationalityEnriched string string
  | EnrichFinished string
  | RequestStarted string
  | RequestSucceeded string
  | UpdateStarted
  | UpdateNotFound string
  | UpdateFindFailed string db_error
  | UpdateInvalidInput string string
  | ReEnriching string
  | ReEnrichFailed string error
  | UpdateSaveFailed string string
  | UpdateSucceeded string

record world =
  net :: "nat \<Rightarrow> string \<Rightarrow> http_result"
  sent :: "string list"
  logged :: "(level \<times> message) list"

text \<open>
  \<open>InitLogger\<close> sets the level to debug, so every level reaches the output. The
  logger is taken as initialised, as it is once \<open>main\<close> has started.
\<close>

definition Debugf :: "world \<Rightarrow> message \<Rightarrow> world" where
  "Debugf w m = w\<lparr>logged := logged w @ [(DebugLevel, m)]\<rparr>"

definition Infof :: "world \<Rightarrow> message \<Rightarrow> world" where
  "Infof w m = w\<lparr>logged := logged w @ [(InfoLevel, m)]\<rparr>"

definition Warnf :: "world \<Rightarrow> message \<Rightarrow> world" where
  "Warnf w m = w\<lparr>logged := logged w @ [(WarnLevel, m)]\<rparr>"

definition Errorf :: "world \<Rightarrow> message \<Rightarrow> world" where
  "Errorf w m = w\<lparr>logged := logged w @ [(ErrorLevel, m)]\<rparr>"

definition client_Get :: "world \<Rightarrow> string \<Rightarrow> http_result \<times> world" where
  "client_Get w url = (net w (length (sent w)) url, w\<lparr>sent := sent w @ [url]\<rparr>)"

section \<open>The enrichment service\<close>

definition fetchData ::
  "world \<Rightarrow> string \<Rightarrow> (json \<Rightarrow> decode_error + 'a) \<Rightarrow> (error + 'a) \<times> world" where
  "fetchData w url target =
     (let w1 = Debugf w (RequestStarted url);
          (resp, w2) = client_Get w1 url
      in case resp of
           TransportError err \<Rightarrow> (Inl (RequestError url err), w2)
         | Response status b \<Rightarrow>
             if status \<noteq> 200 then (Inl (StatusError url status), w2)
             else (case Decode b target of
                     Inl err \<Rightarrow> (Inl (ParseError url err), w2)
                   | Inr v \<Rightarrow> (Inr v, Debugf w2 (RequestSucceeded url))))"

definition ageURL :: "string \<Rightarrow> string" where
  "ageURL name = ''https://api.agify.io/?name='' @ name"

definition genderURL :: "string \<Rightarrow> string" where
  "genderURL name = ''https://api.genderize.io/?name='' @ name"

definition nationalityURL :: "string \<Rightarrow> string" where
  "nationalityURL name = ''https://api.nationalize.io/?name='' @ name"

text \<open>The three blocks of \<open>EnrichPerson\<close>, in the order of the source.\<close>

definition enrichAge :: "world \<Rightarrow> Person \<Rightarrow> Person \<times> world" where
  "enrichAge w person =
     (case fetchData w (ageURL (Name person)) decode_agify of
        (Inl err, w1) \<Rightarrow> (person, Warnf w1 (AgeFailed (Name person) err))
      | (Inr agifyRes, w1) \<Rightarrow>
          if AgifyAge agifyRes \<noteq> 0
          then (person\<lparr>Age := Some (AgifyAge agifyRes)\<rparr>,
                Debugf w1 (AgeEnriched (Name person) (AgifyAge agifyRes)))
          else (person, w1))"

definition enrichGender :: "world \<Rightarrow> Person \<Rightarrow> Person \<times> world" where
  "enrichGender w person =
     (case fetchData w (genderURL (Name person)) decode_genderize of
        (Inl err, w1) \<Rightarrow> (person, Warnf w1 (GenderFailed (Name person) err))
      | (Inr genderizeRes, w1) \<Rightarrow>
          if GenderizeGender genderizeRes \<noteq> []
          then (person\<lparr>Gender := Some (GenderizeGender genderizeRes)\<rparr>,
                Debugf w1 (GenderEnriched (Name person) (GenderizeGender genderizeRes)))
          else (person, w1))"

definition enrichNationality :: "world \<Rightarrow> Person \<Rightarrow> Person \<times> world" where
  "enrichNationality w person =
     (case fetchData w (nationalityURL (Name person)) decode_nationalize of
        (Inl err, w1) \<Rightarrow> (person, Warnf w1 (NationalityFailed (Name person) err))
      | (Inr nationalizeRes, w1) \<Rightarrow>
          (case Country nationalizeRes of
             [] \<Rightarrow> (person, w1)
           | c # cs \<Rightarrow>
               (person\<lparr>Nationality := Some (CountryID c)\<rparr>,
                Debugf w1 (NationalityEnriched (Name person) (CountryID c)))))"

text \<open>
  \<open>EnrichPerson\<close> returns the error of its signature, the person the pointer refers
  to after the call, and the world.
\<close>

definition EnrichPerson :: "world \<Rightarrow> Person \<Rightarrow> error option \<times> Person \<times> world" where
  "EnrichPerson w person =
     (let w0 = Debugf w (EnrichStarted (Name person));
          (person1, w1) = enrichAge w0 person;
          (person2, w2) = enrichGender w1 person1;
          (person3, w3) = enrichNationality w2 person2;
          w4 = Debugf w3 (EnrichFinished (Name person3))
      in (None, person3, w4))"

section \<open>The update handler\<close>

text \<open>
  What \<open>UpdatePerson\<close> receives from the framework and the store is given, not
  computed: the \<open>id\<close> parameter of the route, the result of binding the JSON payload,
  the result of \<open>db.DB.First\<close> for an \<open>id\<close>, and the error of \<open>db.DB.Save\<close> for a
  person, if any. \<open>saved\<close> lists the persons written so far.
\<close>

record request =
  idParam :: string
  bound :: "string + PersonInput"

record database =
  rows :: "string \<Rightarrow> db_error + Person"
  saveError :: "Person \<Rightarrow> string option"
  saved :: "Person list"

datatype reply = PersonReply int Person | ErrorReply int string

definition First :: "database \<Rightarrow> string \<Rightarrow> db_error + Person" where
  "First db ident = rows db ident"

definition Save :: "database \<Rightarrow> Person \<Rightarrow> string option \<times> database" where
  "Save db person =
     (case saveError db person of
        Some err \<Rightarrow> (Some err, db)
      | None \<Rightarrow> (None, db\<lparr>saved := saved db @ [person]\<rparr>))"

text \<open>The fields of the payload that are present replace those of the stored person.\<close>

definition applyInput :: "PersonInput \<Rightarrow> Person \<Rightarrow> Person" where
  "applyInput updateInput existingPerson =
     (let p1 = (if InputName updateInput \<noteq> []
                then existingPerson\<lparr>Name := InputName updateInput\<rparr> else existingPerson);
          p2 = (if InputSurname updateInput \<noteq> []
                then p1\<lparr>Surname := InputSurname updateInput\<rparr> else p1)
      in case InputPatronymic updateInput of
           None \<Rightarrow> p2
         | Some x \<Rightarrow> p2\<lparr>Patronymic := Some x\<rparr>)"

definition UpdatePerson :: "database \<Rightarrow> world \<Rightarrow> request \<Rightarrow> reply \<times> database \<times> world" where
  "UpdatePerson db w rq =
     (let w0 = Infof w UpdateStarted;
          ident = idParam rq
      in case First db ident of
           Inl err \<Rightarrow>
             if err = ErrRecordNotFound
             then (ErrorReply 404 ''Person not found'', db, Warnf w0 (UpdateNotFound ident))
             else (ErrorReply 500 ''Failed to retrieve person for update'', db,
                   Errorf w0 (UpdateFindFailed ident err))
         | Inr existingPerson \<Rightarrow>
             (case bound rq of
                Inl err \<Rightarrow> (ErrorReply 400 err, db, Warnf w0 (UpdateInvalidInput ident err))
              | Inr updateInput \<Rightarrow>
                  (let w1 = Debugf w0 (ReEnriching ident);
                       (err, person, w2) = EnrichPerson w1 (applyInput updateInput existingPerson);
                       w3 = (case err of
                               Some e \<Rightarrow> Errorf w2 (ReEnrichFailed ident e)
                             | None \<Rightarrow> w2)
                   in case Save db person of
                        (Some e, db1) \<Rightarrow>
                          (ErrorReply 500 ''Failed to update person'', db1,
                           Errorf w3 (UpdateSaveFailed ident e))
                      | (None, db1) \<Rightarrow>
                          (PersonReply 200 person, db1, Infof w3 (UpdateSucceeded ident)))))"

section \<open>Observations of one call\<close>

text \<open>
  The answer of the network to the \<open>k\<close>-th request counted from the state \<open>w\<close>, and
  the world in which that request is answered by \<open>r\<close>.
\<close>

definition answer :: "world \<Rightarrow> nat \<Rightarrow> string \<Rightarrow> http_result" where
  "answer w k url = net w (length (sent w) + k) url"

definition answerWith :: "world \<Rightarrow> nat \<Rightarrow> http_result \<Rightarrow> world" where
  "answerWith w k r = w\<lparr>net := (\<lambda>n url. if n = length (sent w) + k then r else net w n url)\<rparr>"

text \<open>The value \<open>fetchData\<close> returns, as a function of the answer it receives.\<close>

definition outcome :: "string \<Rightarrow> http_result \<Rightarrow> (json \<Rightarrow> decode_error + 'a) \<Rightarrow> error + 'a" where
  "outcome url resp target =
     (case resp of
        TransportError err \<Rightarrow> Inl (RequestError url err)
      | Response status b \<Rightarrow>
          if status \<noteq> 200 then Inl (StatusError url status)
          else (case Decode b target of
                  Inl err \<Rightarrow> Inl (ParseError url err)
                | Inr v \<Rightarrow> Inr v))"

definition returned :: "world \<Rightarrow> Person \<Rightarrow> error option" where
  "returned w p = fst (EnrichPerson w p)"

definition enriched :: "world \<Rightarrow> Person \<Rightarrow> Person" where
  "enriched w p = fst (snd (EnrichPerson w p))"

definition after :: "world \<Rightarrow> Person \<Rightarrow> world" where
  "after w p = snd (snd (EnrichPerson w p))"

definition requested :: "world \<Rightarrow> Person \<Rightarrow> string list" where
  "requested w p = drop (length (sent w)) (sent (after w p))"

definition emitted :: "world \<Rightarrow> Person \<Rightarrow> (level \<times> message) list" where
  "emitted w p = drop (length (logged w)) (logged (after w p))"

text \<open>The value each of the three calls of \<open>fetchData\<close> returns during one call.\<close>

definition ageOutcome :: "world \<Rightarrow> Person \<Rightarrow> error + AgifyResponse" where
  "ageOutcome w p = outcome (ageURL (Name p)) (answer w 0 (ageURL (Name p))) decode_agify"

definition genderOutcome :: "world \<Rightarrow> Person \<Rightarrow> error + GenderizeResponse" where
  "genderOutcome w p =
     outcome (genderURL (Name p)) (answer w 1 (genderURL (Name p))) decode_genderize"

definition nationalityOutcome :: "world \<Rightarrow> Person \<Rightarrow> error + NationalizeResponse" where
  "nationalityOutcome w p =
     outcome (nationalityURL (Name p)) (answer w 2 (nationalityURL (Name p))) decode_nationalize"

text \<open>The lookups named, their place in the sequence, and the warnings of a log.\<close>

datatype lookup = AgeLookup | GenderLookup | NationalityLookup

fun place :: "lookup \<Rightarrow> nat" where
  "place AgeLookup = 0"
| "place GenderLookup = 1"
| "place NationalityLookup = 2"

fun warningOf :: "level \<times> message \<Rightarrow> lookup option" where
  "warningOf (WarnLevel, AgeFailed n e) = Some AgeLookup"
| "warningOf (WarnLevel, GenderFailed n e) = Some GenderLookup"
| "warningOf (WarnLevel, NationalityFailed n e) = Some NationalityLookup"
| "warningOf (l, m) = None"

definition warnings :: "world \<Rightarrow> Person \<Rightarrow> lookup list" where
  "warnings w p = List.map_filter warningOf (emitted w p)"

text \<open>
  The assignments of a log: each assignment of \<open>EnrichPerson\<close> is followed by its debug
  line.
\<close>

fun assignmentOf :: "level \<times> message \<Rightarrow> lookup option" where
  "assignmentOf (DebugLevel, AgeEnriched n a) = Some AgeLookup"
| "assignmentOf (DebugLevel, GenderEnriched n g) = Some GenderLookup"
| "assignmentOf (DebugLevel, NationalityEnriched n c) = Some NationalityLookup"
| "assignmentOf (l, m) = None"

definition assigned :: "world \<Rightarrow> Person \<Rightarrow> lookup list" where
  "assigned w p = List.map_filter assignmentOf (emitted w p)"

text \<open>Whether two persons agree on the field a lookup writes.\<close>

fun sameField :: "lookup \<Rightarrow> Person \<Rightarrow> Person \<Rightarrow> bool" where
  "sameField AgeLookup p q = (Age p = Age q)"
| "sameField GenderLookup p q = (Gender p = Gender q)"
| "sameField NationalityLookup p q = (Nationality p = Nationality q)"

text \<open>
  The JSON key each lookup reads, its explicit zero value, and a response with status
  200 whose body is a JSON value.
\<close>

fun tag :: "lookup \<Rightarrow> string" where
  "tag AgeLookup = ''age''"
| "tag GenderLookup = ''gender''"
| "tag NationalityLookup = ''country''"

fun zero :: "lookup \<Rightarrow> json" where
  "zero AgeLookup = JInt 0"
| "zero GenderLookup = JString []"
| "zero NationalityLookup = JArray []"

definition ok :: "json \<Rightarrow> http_result" where
  "ok j = Response 200 (Parsed j)"

section \<open>The blocks as functions of what \<open>fetchData\<close> returned\<close>

definition applyAge :: "error + AgifyResponse \<Rightarrow> Person \<Rightarrow> Person" where
  "applyAge oc p =
     (case oc of
        Inl e \<Rightarrow> p
      | Inr r \<Rightarrow> if AgifyAge r \<noteq> 0 then p\<lparr>Age := Some (AgifyAge r)\<rparr> else p)"

definition applyGender :: "error + GenderizeResponse \<Rightarrow> Person \<Rightarrow> Person" where
  "applyGender oc p =
     (case oc of
        Inl e \<Rightarrow> p
      | Inr r \<Rightarrow> if GenderizeGender r \<noteq> [] then p\<lparr>Gender := Some (GenderizeGender r)\<rparr> else p)"

definition applyNationality :: "error + NationalizeResponse \<Rightarrow> Person \<Rightarrow> Person" where
  "applyNationality oc p =
     (case oc of
        Inl e \<Rightarrow> p
      | Inr r \<Rightarrow> (case Country r of
                    [] \<Rightarrow> p
                  | c # cs \<Rightarrow> p\<lparr>Nationality := Some (CountryID c)\<rparr>))"

definition ageEntries :: "string \<Rightarrow> error + AgifyResponse \<Rightarrow> (level \<times> message) list" where
  "ageEntries name oc =
     (DebugLevel, RequestStarted (ageURL name)) #
     (case oc of
        Inl e \<Rightarrow> [(WarnLevel, AgeFailed name e)]
      | Inr r \<Rightarrow>
          (DebugLevel, RequestSucceeded (ageURL name)) #
          (if AgifyAge r \<noteq> 0 then [(DebugLevel, AgeEnriched name (AgifyAge r))] else []))"

definition genderEntries :: "string \<Rightarrow> error + GenderizeResponse \<Rightarrow> (level \<times> message) list" where
  "genderEntries name oc =
     (DebugLevel, RequestStarted (genderURL name)) #
     (case oc of
        Inl e \<Rightarrow> [(WarnLevel, GenderFailed name e)]
      | Inr r \<Rightarrow>
          (DebugLevel, RequestSucceeded (genderURL name)) #
          (if GenderizeGender r \<noteq> []
           then [(DebugLevel, GenderEnriched name (GenderizeGender r))] else []))"

definition nationalityEntries ::
  "string \<Rightarrow> error + NationalizeResponse \<Rightarrow> (level \<times> message) list" where
  "nationalityEntries name oc =
     (DebugLevel, RequestStarted (nationalityURL name)) #
     (case oc of
        Inl e \<Rightarrow> [(WarnLevel, NationalityFailed name e)]
      | Inr r \<Rightarrow>
          (DebugLevel, RequestSucceeded (nationalityURL name)) #
          (case Country r of
             [] \<Rightarrow> []
           | c # cs \<Rightarrow> [(DebugLevel, NationalityEnriched name (CountryID c))]))"

section \<open>Example persons and networks\<close>

text \<open>
  A scripted network answers the \<open>n\<close>-th request with the \<open>n\<close>-th element of a list and
  refuses the connection afterwards.
\<close>

definition answers :: "http_result list \<Rightarrow> nat \<Rightarrow> string \<Rightarrow> http_result" where
  "answers rs n url = (if n < length rs then rs ! n else TransportError ''connection refused'')"

definition scripted :: "http_result list \<Rightarrow> world" where
  "scripted rs = \<lparr>net = answers rs, sent = [], logged = []\<rparr>"

definition ivan :: Person where
  "ivan = \<lparr>ID = 7, Name = ''Ivan'', Surname = ''Petrov'', Patronymic = Some ''Sergeevich'',
            Age = Some 42, Gender = Some ''male'', Nationality = Some ''RU''\<rparr>"

definition dmitriy :: Person where
  "dmitriy = \<lparr>ID = 0, Name = ''Dmitriy'', Surname = ''Ushakov'', Patronymic = None,
               Age = None, Gender = None, Nationality = None\<rparr>"

definition scenario :: world where
  "scenario = scripted
     [ok (JObject [(''age'', JInt 42)]),
      TransportError ''timeout'',
      ok (JObject [(''country'', JArray
        [JObject [(''country_id'', JString ''RU''), (''probability'', JFrac (9 / 10))]])])]"

definition usgb :: world where
  "usgb = scripted
     [ok (JObject [(''count'', JInt 0), (''name'', JString ''Dmitriy''), (''age'', JNull)]),
      ok (JObject [(''gender'', JNull)]),
      ok (JObject [(''country'', JArray
        [JObject [(''country_id'', JString ''US''), (''probability'', JFrac (6 / 10))],
         JObject [(''country_id'', JString ''GB''), (''probability'', JFrac (4 / 10))]])])]"

definition gbLikelier :: world where
  "gbLikelier = scripted
     [Response 404 Malformed,
      Response 200 Malformed,
      ok (JObject [(''country'', JArray
        [JObject [(''country_id'', JString ''US''), (''probability'', JFrac (1 / 10))],
         JObject [(''country_id'', JString ''GB''), (''probability'', JFrac (9 / 10))]])])]"

definition found :: world where
  "found = scripted
     [ok (JObject [(''age'', JInt 34)]),
      ok (JObject [(''gender'', JString ''male'')]),
      ok (JObject [(''country'', JArray [JObject [(''country_id'', JString ''RU'')]])])]"

definition blank :: world where
  "blank = scripted
     [ok (JObject [(''age'', JInt 0)]),
      ok (JObject [(''gender'', JString [])]),
      ok (JObject [(''country'', JArray [])])]"

text \<open>A store that holds the person \<open>ivan\<close> under the identifier 7 and accepts every write.\<close>

definition ivanRows :: "string \<Rightarrow> db_error + Person" where
  "ivanRows ident = (if ident = ''7'' then Inr ivan else Inl ErrRecordNotFound)"

definition accepting :: "Person \<Rightarrow> string option" where
  "accepting person = None"

definition store :: database where
  "store = \<lparr>rows = ivanRows, saveError = accepting, saved = []\<rparr>"

definition putIvan :: request where
  "putIvan = \<lparr>idParam = ''7'',
               bound = Inr \<lparr>InputName = ''Ivan'', InputSurname = ''Petrov'',
                             InputPatronymic = None\<rparr>\<rparr>"

section \<open>The call as an equation\<close>

lemma fetchData_eq:
  "fetchData w url t =
     (outcome url (answer w 0 url) t,
      w\<lparr>sent := sent w @ [url],
        logged := logged w @ (DebugLevel, RequestStarted url) #
          (case outcome url (answer w 0 url) t of
             Inl e \<Rightarrow> []
           | Inr v \<Rightarrow> [(DebugLevel, RequestSucceeded url)])\<rparr>)"
  by (simp add: fetchData_def outcome_def answer_def client_Get_def Debugf_def Let_def
      split: http_result.splits sum.splits)

lemma enrichAge_eq:
  "enrichAge w p =
     (applyAge (outcome (ageURL (Name p)) (answer w 0 (ageURL (Name p))) decode_agify) p,
      w\<lparr>sent := sent w @ [ageURL (Name p)],
        logged := logged w @
          ageEntries (Name p)
            (outcome (ageURL (Name p)) (answer w 0 (ageURL (Name p))) decode_agify)\<rparr>)"
  by (simp add: enrichAge_def fetchData_eq applyAge_def ageEntries_def Warnf_def Debugf_def
      split: sum.splits)

lemma enrichGender_eq:
  "enrichGender w p =
     (applyGender
        (outcome (genderURL (Name p)) (answer w 0 (genderURL (Name p))) decode_genderize) p,
      w\<lparr>sent := sent w @ [genderURL (Name p)],
        logged := logged w @
          genderEntries (Name p)
            (outcome (genderURL (Name p)) (answer w 0 (genderURL (Name p))) decode_genderize)\<rparr>)"
  by (simp add: enrichGender_def fetchData_eq applyGender_def genderEntries_def Warnf_def
      Debugf_def split: sum.splits)

lemma enrichNationality_eq:
  "enrichNationality w p =
     (applyNationality
        (outcome (nationalityURL (Name p)) (answer w 0 (nationalityURL (Name p)))
           decode_nationalize) p,
      w\<lparr>sent := sent w @ [nationalityURL (Name p)],
        logged := logged w @
          nationalityEntries (Name p)
            (outcome (nationalityURL (Name p)) (answer w 0 (nationalityURL (Name p)))
               decode_nationalize)\<rparr>)"
  by (simp add: enrichNationality_def fetchData_eq applyNationality_def nationalityEntries_def
      Warnf_def Debugf_def split: sum.splits list.splits)

lemma Name_applyAge: "Name (applyAge oc p) = Name p"
  by (simp add: applyAge_def split: sum.splits)

lemma Name_applyGender: "Name (applyGender oc p) = Name p"
  by (simp add: applyGender_def split: sum.splits)

lemma Name_applyNationality: "Name (applyNationality oc p) = Name p"
  by (simp add: applyNationality_def split: sum.splits list.splits)

text \<open>The whole call, in one equation.\<close>

lemma EnrichPerson_eq:
  "EnrichPerson w p =
     (None,
      applyNationality (nationalityOutcome w p)
        (applyGender (genderOutcome w p) (applyAge (ageOutcome w p) p)),
      w\<lparr>sent := sent w @ [ageURL (Name p), genderURL (Name p), nationalityURL (Name p)],
        logged := logged w @ (DebugLevel, EnrichStarted (Name p)) #
          ageEntries (Name p) (ageOutcome w p) @
          genderEntries (Name p) (genderOutcome w p) @
          nationalityEntries (Name p) (nationalityOutcome w p) @
          [(DebugLevel, EnrichFinished (Name p))]\<rparr>)"
  by (simp add: EnrichPerson_def enrichAge_eq enrichGender_eq enrichNationality_eq Debugf_def
      Let_def answer_def ageOutcome_def genderOutcome_def nationalityOutcome_def
      Name_applyAge Name_applyGender Name_applyNationality)

lemma enriched_eq:
  "enriched w p =
     applyNationality (nationalityOutcome w p)
       (applyGender (genderOutcome w p) (applyAge (ageOutcome w p) p))"
  by (simp add: enriched_def EnrichPerson_eq)

lemma requested_eq:
  "requested w p = [ageURL (Name p), genderURL (Name p), nationalityURL (Name p)]"
  by (simp add: requested_def after_def EnrichPerson_eq)

lemma emitted_eq:
  "emitted w p =
     (DebugLevel, EnrichStarted (Name p)) #
     ageEntries (Name p) (ageOutcome w p) @
     genderEntries (Name p) (genderOutcome w p) @
     nationalityEntries (Name p) (nationalityOutcome w p) @
     [(DebugLevel, EnrichFinished (Name p))]"
  by (simp add: emitted_def after_def EnrichPerson_eq)

lemma Age_enriched: "Age (enriched w p) = Age (applyAge (ageOutcome w p) p)"
  by (simp add: enriched_eq applyNationality_def applyGender_def split: sum.splits list.splits)

lemma Gender_enriched: "Gender (enriched w p) = Gender (applyGender (genderOutcome w p) p)"
  by (simp add: enriched_eq applyNationality_def applyGender_def applyAge_def
      split: sum.splits list.splits)

lemma Nationality_enriched:
  "Nationality (enriched w p) = Nationality (applyNationality (nationalityOutcome w p) p)"
  by (simp add: enriched_eq applyNationality_def applyGender_def applyAge_def
      split: sum.splits list.splits)

lemma warnings_eq:
  "warnings w p =
     (if isl (ageOutcome w p) then [AgeLookup] else []) @
     (if isl (genderOutcome w p) then [GenderLookup] else []) @
     (if isl (nationalityOutcome w p) then [NationalityLookup] else [])"
  by (simp add: warnings_def emitted_eq List.map_filter_def ageEntries_def genderEntries_def
      nationalityEntries_def split: sum.splits list.splits)

lemma assigned_eq:
  "assigned w p =
     (case ageOutcome w p of Inl e \<Rightarrow> [] | Inr r \<Rightarrow> if AgifyAge r \<noteq> 0 then [AgeLookup] else []) @
     (case genderOutcome w p of Inl e \<Rightarrow> []
      | Inr r \<Rightarrow> if GenderizeGender r \<noteq> [] then [GenderLookup] else []) @
     (case nationalityOutcome w p of Inl e \<Rightarrow> []
      | Inr r \<Rightarrow> (case Country r of [] \<Rightarrow> [] | c # cs \<Rightarrow> [NationalityLookup]))"
  by (simp add: assigned_def emitted_eq List.map_filter_def ageEntries_def genderEntries_def
      nationalityEntries_def split: sum.splits list.splits)

lemma outcome_ok: "Decode b t = Inr r \<Longrightarrow> outcome url (Response 200 b) t = Inr r"
  by (simp add: outcome_def)

section \<open>Replacing one answer\<close>

lemma answer_answerWith:
  "answer (answerWith w k r) j url = (if j = k then r else answer w j url)"
  by (simp add: answer_def answerWith_def)

lemma ageOutcome_answerWith:
  "ageOutcome (answerWith w k r) p =
     (if k = 0 then outcome (ageURL (Name p)) r decode_agify else ageOutcome w p)"
  by (simp add: ageOutcome_def answer_answerWith)

lemma genderOutcome_answerWith:
  "genderOutcome (answerWith w k r) p =
     (if k = 1 then outcome (genderURL (Name p)) r decode_genderize else genderOutcome w p)"
  by (auto simp add: genderOutcome_def answer_answerWith)

lemma nationalityOutcome_answerWith:
  "nationalityOutcome (answerWith w k r) p =
     (if k = 2 then outcome (nationalityURL (Name p)) r decode_nationalize
      else nationalityOutcome w p)"
  by (auto simp add: nationalityOutcome_def answer_answerWith)

lemmas outcome_answerWith =
  ageOutcome_answerWith genderOutcome_answerWith nationalityOutcome_answerWith

section \<open>Bodies without the field, and the examples evaluated\<close>

lemma agify_members_skip:
  "\<not> list_ex (matches ''age'') (map fst ms) \<Longrightarrow> agify_members ms r = Inr r"
  by (induction ms arbitrary: r) auto

lemma genderize_members_skip:
  "\<not> list_ex (matches ''gender'') (map fst ms) \<Longrightarrow> genderize_members ms r = Inr r"
  by (induction ms arbitrary: r) auto

lemma nationalize_members_skip:
  "\<not> list_ex (matches ''country'') (map fst ms) \<Longrightarrow> nationalize_members ms r = Inr r"
  by (induction ms arbitrary: r) auto

lemma outcome_without_field:
  "\<not> list_ex (matches ''age'') (map fst ms) \<Longrightarrow>
     outcome url (ok (JObject ms)) decode_agify = Inr \<lparr>AgifyAge = 0\<rparr>"
  "\<not> list_ex (matches ''gender'') (map fst ms) \<Longrightarrow>
     outcome url (ok (JObject ms)) decode_genderize = Inr \<lparr>GenderizeGender = []\<rparr>"
  "\<not> list_ex (matches ''country'') (map fst ms) \<Longrightarrow>
     outcome url (ok (JObject ms)) decode_nationalize = Inr \<lparr>Country = []\<rparr>"
  by (simp_all add: outcome_def ok_def Decode_def decode_agify_def decode_genderize_def
      decode_nationalize_def agify_members_skip genderize_members_skip nationalize_members_skip)

text \<open>A body that is valid JSON but not an object does not decode into a response.\<close>

lemma outcome_not_an_object:
  "outcome url (ok (JArray js)) decode_agify = Inl (ParseError url UnmarshalTypeError)"
  "outcome url (ok (JString x)) decode_genderize = Inl (ParseError url UnmarshalTypeError)"
  "outcome url (ok (JInt n)) decode_nationalize = Inl (ParseError url UnmarshalTypeError)"
  by (simp_all add: outcome_def ok_def Decode_def decode_agify_def decode_genderize_def
      decode_nationalize_def)

lemmas run = answer_def scripted_def answers_def ok_def outcome_def Decode_def
  ageOutcome_def genderOutcome_def nationalityOutcome_def
  decode_agify_def decode_genderize_def decode_nationalize_def decode_country_def
  decode_entry_def decode_int_def decode_string_def decode_float_def float64_fits_def
  matches_def foldName_def

lemma outcome_zero_field:
  "outcome url (ok (JObject [(''age'', JInt 0)])) decode_agify = Inr \<lparr>AgifyAge = 0\<rparr>"
  "outcome url (ok (JObject [(''gender'', JString [])])) decode_genderize =
     Inr \<lparr>GenderizeGender = []\<rparr>"
  "outcome url (ok (JObject [(''country'', JArray [])])) decode_nationalize =
     Inr \<lparr>Country = []\<rparr>"
  by (simp_all add: run)

lemma ivan_fields:
  "Name ivan = ''Ivan''" "Surname ivan = ''Petrov''" "Age ivan = Some 42"
  "Gender ivan = Some ''male''" "Nationality ivan = Some ''RU''"
  by (simp_all add: ivan_def)

lemma dmitriy_fields:
  "Name dmitriy = ''Dmitriy''" "Age dmitriy = None" "Gender dmitriy = None"
  "Nationality dmitriy = None"
  by (simp_all add: dmitriy_def)

lemma offline_outcomes:
  "ageOutcome (scripted []) p = Inl (RequestError (ageURL (Name p)) ''connection refused'')"
  "genderOutcome (scripted []) p = Inl (RequestError (genderURL (Name p)) ''connection refused'')"
  "nationalityOutcome (scripted []) p = Inl (RequestError (nationalityURL (Name p)) ''connection refused'')"
  by (simp_all add: ageOutcome_def genderOutcome_def nationalityOutcome_def outcome_def
      answer_def scripted_def answers_def)

lemma scenario_outcomes:
  "ageOutcome scenario p = Inr \<lparr>AgifyAge = 42\<rparr>"
  "genderOutcome scenario p = Inl (RequestError (genderURL (Name p)) ''timeout'')"
  "nationalityOutcome scenario p = Inr \<lparr>Country = [\<lparr>CountryID = ''RU'', Probability = 9 / 10\<rparr>]\<rparr>"
  by (simp_all add: scenario_def run)

lemma usgb_outcomes:
  "ageOutcome usgb p = Inr \<lparr>AgifyAge = 0\<rparr>"
  "genderOutcome usgb p = Inr \<lparr>GenderizeGender = []\<rparr>"
  "nationalityOutcome usgb p = Inr \<lparr>Country =
     [\<lparr>CountryID = ''US'', Probability = 6 / 10\<rparr>, \<lparr>CountryID = ''GB'', Probability = 4 / 10\<rparr>]\<rparr>"
  by (simp_all add: usgb_def run)

lemma gbLikelier_outcomes:
  "ageOutcome gbLikelier p = Inl (StatusError (ageURL (Name p)) 404)"
  "genderOutcome gbLikelier p = Inl (ParseError (genderURL (Name p)) SyntaxError)"
  "nationalityOutcome gbLikelier p = Inr \<lparr>Country =
     [\<lparr>CountryID = ''US'', Probability = 1 / 10\<rparr>, \<lparr>CountryID = ''GB'', Probability = 9 / 10\<rparr>]\<rparr>"
  by (simp_all add: gbLikelier_def run)

lemma found_outcomes:
  "ageOutcome found p = Inr \<lparr>AgifyAge = 34\<rparr>"
  "genderOutcome found p = Inr \<lparr>GenderizeGender = ''male''\<rparr>"
  "nationalityOutcome found p = Inr \<lparr>Country = [\<lparr>CountryID = ''RU'', Probability = 0\<rparr>]\<rparr>"
  by (simp_all add: found_def run)

lemma blank_outcomes:
  "ageOutcome blank p = Inr \<lparr>AgifyAge = 0\<rparr>"
  "genderOutcome blank p = Inr \<lparr>GenderizeGender = []\<rparr>"
  "nationalityOutcome blank p = Inr \<lparr>Country = []\<rparr>"
  by (simp_all add: blank_def run)

section \<open>The update handler re-enriches the stored person\<close>

lemma outcome_logged:
  "ageOutcome (w\<lparr>logged := l\<rparr>) p = ageOutcome w p"
  "genderOutcome (w\<lparr>logged := l\<rparr>) p = genderOutcome w p"
  "nationalityOutcome (w\<lparr>logged := l\<rparr>) p = nationalityOutcome w p"
  by (simp_all add: ageOutcome_def genderOutcome_def nationalityOutcome_def answer_def)

lemma enriched_logged: "enriched (w\<lparr>logged := l\<rparr>) p = enriched w p"
  by (simp add: enriched_eq outcome_logged)

lemma applyInput_fields:
  "Age (applyInput i p) = Age p" "Gender (applyInput i p) = Gender p"
  "Nationality (applyInput i p) = Nationality p" "ID (applyInput i p) = ID p"
  by (simp_all add: applyInput_def Let_def split: option.splits)

text \<open>
  When the update succeeds, the person saved and returned is the stored person with
  the payload applied, passed through \<open>EnrichPerson\<close>: nothing resets the three
  enrichment fields on the way.
\<close>

lemma UpdatePerson_reply:
  assumes "rows db (idParam rq) = Inr existing" and "bound rq = Inr i"
    and "fst (UpdatePerson db w rq) = PersonReply s q"
  shows "s = 200 \<and> q = enriched w (applyInput i existing) \<and>
    saved (fst (snd (UpdatePerson db w rq))) = saved db @ [q]"
proof -
  obtain err q' w2 where
    run: "EnrichPerson (Debugf (Infof w UpdateStarted) (ReEnriching (idParam rq)))
      (applyInput i existing) = (err, q', w2)"
    by (cases "EnrichPerson (Debugf (Infof w UpdateStarted) (ReEnriching (idParam rq)))
      (applyInput i existing)") auto
  have "fst (snd (EnrichPerson (Debugf (Infof w UpdateStarted) (ReEnriching (idParam rq)))
      (applyInput i existing))) = enriched w (applyInput i existing)"
    by (simp add: enriched_def [symmetric] Debugf_def Infof_def enriched_logged)
  with run have q': "q' = enriched w (applyInput i existing)"
    by simp
  from assms run show ?thesis
    by (auto simp add: UpdatePerson_def First_def Save_def Let_def q'
        split: option.splits prod.splits)
qed

lemma UpdatePerson_keeps_field_of_failed_lookup:
  assumes "rows db (idParam rq) = Inr existing" and "bound rq = Inr i"
    and "fst (UpdatePerson db w rq) = PersonReply s q"
  shows "(isl (ageOutcome w (applyInput i existing)) \<longrightarrow> Age q = Age existing) \<and>
    (isl (genderOutcome w (applyInput i existing)) \<longrightarrow> Gender q = Gender existing) \<and>
    (isl (nationalityOutcome w (applyInput i existing)) \<longrightarrow>
       Nationality q = Nationality existing)"
  using UpdatePerson_reply [OF assms]
  by (auto simp add: Age_enriched Gender_enriched Nationality_enriched applyAge_def
      applyGender_def applyNationality_def applyInput_fields isl_def)

text \<open>
  The update of \<open>ivan\<close> while no lookup can be reached: the reply and the store hold
  \<open>ivan\<close> as he was, the three enrichment fields included.
\<close>

lemma UpdatePerson_offline:
  "fst (UpdatePerson store (scripted []) putIvan) = PersonReply 200 ivan \<and>
   saved (fst (snd (UpdatePerson store (scripted []) putIvan))) = [ivan]"
proof -
  have same: "applyInput \<lparr>InputName = ''Ivan'', InputSurname = ''Petrov'',
      InputPatronymic = None\<rparr> ivan = ivan"
    by (simp add: applyInput_def ivan_def)
  have offline: "enriched (scripted []) ivan = ivan"
    by (simp add: enriched_eq offline_outcomes applyAge_def applyGender_def
        applyNationality_def)
  have kept: "fst (snd (EnrichPerson (Debugf (Infof (scripted []) UpdateStarted)
      (ReEnriching ''7'')) ivan)) = ivan"
    by (simp add: enriched_def [symmetric] Debugf_def Infof_def enriched_logged offline)
  obtain err w2 where
    "EnrichPerson (Debugf (Infof (scripted []) UpdateStarted) (ReEnriching ''7'')) ivan =
       (err, ivan, w2)"
    using kept
    by (cases "EnrichPerson (Debugf (Infof (scripted []) UpdateStarted) (ReEnriching ''7''))
      ivan") auto
  then show ?thesis
    by (simp add: UpdatePerson_def First_def Save_def Let_def store_def putIvan_def
        ivanRows_def accepting_def same split: option.splits)
qed

section \<open>Properties of \<open>EnrichPerson\<close>\<close>

text \<open>
  C1. Whatever the person and whatever the network answers to the three lookups
  (an answer that decodes, a transport error, a status other than 200, a body that
  does not decode, a body of zero values), \<open>EnrichPerson\<close> returns the nil error: no
  failure of a lookup reaches the caller.
\<close>

theorem EnrichPerson_returns_nil: "returned w p = None"
  by (simp add: returned_def EnrichPerson_def Let_def split: prod.splits)

text \<open>
  C2. Re-enrichment with a failed lookup. The specification has a field that was set
  become absent when its lookup fails. The code keeps it: a failed lookup takes the
  warning branch, which assigns nothing, so the field has after the call the value it
  had before. This holds for age, gender and nationality alike, and for every kind of
  failure.
\<close>

theorem failed_lookup_keeps_field:
  "(isl (ageOutcome w p) \<longrightarrow> Age (enriched w p) = Age p) \<and>
   (isl (genderOutcome w p) \<longrightarrow> Gender (enriched w p) = Gender p) \<and>
   (isl (nationalityOutcome w p) \<longrightarrow> Nationality (enriched w p) = Nationality p)"
  by (auto simp add: Age_enriched Gender_enriched Nationality_enriched applyAge_def
      applyGender_def applyNationality_def isl_def)

theorem failed_lookup_keeps_field_witness:
  "isl (ageOutcome (scripted []) ivan) \<and> isl (genderOutcome (scripted []) ivan) \<and>
   isl (nationalityOutcome (scripted []) ivan) \<and>
   Age (enriched (scripted []) ivan) = Some 42 \<and>
   Gender (enriched (scripted []) ivan) = Some ''male'' \<and>
   Nationality (enriched (scripted []) ivan) = Some ''RU''"
  using failed_lookup_keeps_field [of "scripted []" ivan]
  by (simp add: offline_outcomes ivan_def)

text \<open>
  The sentence of the specification at a concrete input: a person enriched earlier with
  gender "male", and a network that refuses every connection. The gender is still "male"
  after the call, not absent.
\<close>

theorem failed_lookup_clears_field_counterexample:
  "Gender ivan = Some ''male'' \<and>
   genderOutcome (scripted []) ivan =
     Inl (RequestError ''https://api.genderize.io/?name=Ivan'' ''connection refused'') \<and>
   Gender (fst (snd (EnrichPerson (scripted []) ivan))) \<noteq> None"
  by (simp add: ivan_def scripted_def answers_def EnrichPerson_def enrichAge_def enrichGender_def
      enrichNationality_def fetchData_def client_Get_def Debugf_def Warnf_def Let_def
      genderOutcome_def outcome_def answer_def genderURL_def)

text \<open>
  C3. When a lookup is answered with status 200 and a body that decodes, its field is
  assigned exactly when the decoded value is not the zero value: the age when it is not
  0, the gender when it is not the empty string, the nationality when the country array
  is not empty. Otherwise the field keeps its value, and in both cases no warning is
  logged for that lookup.
\<close>

theorem parsed_success_sets_field_iff_value:
  "(answer w 0 (ageURL (Name p)) = Response 200 b1 \<and> Decode b1 decode_agify = Inr r1 \<longrightarrow>
      Age (enriched w p) = (if AgifyAge r1 \<noteq> 0 then Some (AgifyAge r1) else Age p) \<and>
      (AgeLookup \<in> set (assigned w p)) = (AgifyAge r1 \<noteq> 0) \<and>
      AgeLookup \<notin> set (warnings w p)) \<and>
   (answer w 1 (genderURL (Name p)) = Response 200 b2 \<and> Decode b2 decode_genderize = Inr r2 \<longrightarrow>
      Gender (enriched w p) =
        (if GenderizeGender r2 \<noteq> [] then Some (GenderizeGender r2) else Gender p) \<and>
      (GenderLookup \<in> set (assigned w p)) = (GenderizeGender r2 \<noteq> []) \<and>
      GenderLookup \<notin> set (warnings w p)) \<and>
   (answer w 2 (nationalityURL (Name p)) = Response 200 b3 \<and>
    Decode b3 decode_nationalize = Inr r3 \<longrightarrow>
      Nationality (enriched w p) =
        (case Country r3 of [] \<Rightarrow> Nationality p | c # cs \<Rightarrow> Some (CountryID c)) \<and>
      (NationalityLookup \<in> set (assigned w p)) = (Country r3 \<noteq> []) \<and>
      NationalityLookup \<notin> set (warnings w p))"
proof (intro conjI impI)
  assume "answer w 0 (ageURL (Name p)) = Response 200 b1 \<and> Decode b1 decode_agify = Inr r1"
  then have oc: "ageOutcome w p = Inr r1"
    by (simp add: ageOutcome_def outcome_ok)
  show "Age (enriched w p) = (if AgifyAge r1 \<noteq> 0 then Some (AgifyAge r1) else Age p)"
    by (simp add: Age_enriched oc applyAge_def)
  show "(AgeLookup \<in> set (assigned w p)) = (AgifyAge r1 \<noteq> 0)"
    by (simp add: assigned_eq oc split: sum.splits list.splits)
  show "AgeLookup \<notin> set (warnings w p)"
    by (simp add: warnings_eq oc)
next
  assume "answer w 1 (genderURL (Name p)) = Response 200 b2 \<and>
    Decode b2 decode_genderize = Inr r2"
  then have oc: "genderOutcome w p = Inr r2"
    by (simp add: genderOutcome_def outcome_ok)
  show "Gender (enriched w p) =
      (if GenderizeGender r2 \<noteq> [] then Some (GenderizeGender r2) else Gender p)"
    by (simp add: Gender_enriched oc applyGender_def)
  show "(GenderLookup \<in> set (assigned w p)) = (GenderizeGender r2 \<noteq> [])"
    by (simp add: assigned_eq oc split: sum.splits list.splits)
  show "GenderLookup \<notin> set (warnings w p)"
    by (simp add: warnings_eq oc)
next
  assume "answer w 2 (nationalityURL (Name p)) = Response 200 b3 \<and>
    Decode b3 decode_nationalize = Inr r3"
  then have oc: "nationalityOutcome w p = Inr r3"
    by (simp add: nationalityOutcome_def outcome_ok)
  show "Nationality (enriched w p) =
      (case Country r3 of [] \<Rightarrow> Nationality p | c # cs \<Rightarrow> Some (CountryID c))"
    by (simp add: Nationality_enriched oc applyNationality_def split: list.splits)
  show "(NationalityLookup \<in> set (assigned w p)) = (Country r3 \<noteq> [])"
    by (cases "Country r3") (simp_all add: assigned_eq oc)
  show "NationalityLookup \<notin> set (warnings w p)"
    by (simp add: warnings_eq oc)
qed

theorem parsed_success_sets_field_iff_value_witness:
  "Age (enriched found dmitriy) = Some 34 \<and> Gender (enriched found dmitriy) = Some ''male'' \<and>
   Nationality (enriched found dmitriy) = Some ''RU'' \<and>
   assigned found dmitriy = [AgeLookup, GenderLookup, NationalityLookup] \<and>
   Age (enriched blank dmitriy) = None \<and> Gender (enriched blank dmitriy) = None \<and>
   Nationality (enriched blank dmitriy) = None \<and>
   assigned blank dmitriy = [] \<and> warnings blank dmitriy = []"
proof -
  have a: "answer found 0 (ageURL (Name dmitriy)) = Response 200 (Parsed (JObject [(''age'', JInt 34)])) \<and>
      Decode (Parsed (JObject [(''age'', JInt 34)])) decode_agify = Inr \<lparr>AgifyAge = 34\<rparr>"
    by (simp add: found_def run)
  have g: "answer found 1 (genderURL (Name dmitriy)) =
        Response 200 (Parsed (JObject [(''gender'', JString ''male'')])) \<and>
      Decode (Parsed (JObject [(''gender'', JString ''male'')])) decode_genderize =
        Inr \<lparr>GenderizeGender = ''male''\<rparr>"
    by (simp add: found_def run)
  have n: "answer found 2 (nationalityURL (Name dmitriy)) =
        Response 200 (Parsed (JObject [(''country'', JArray [JObject [(''country_id'', JString ''RU'')]])])) \<and>
      Decode (Parsed (JObject [(''country'', JArray [JObject [(''country_id'', JString ''RU'')]])]))
        decode_nationalize = Inr \<lparr>Country = [\<lparr>CountryID = ''RU'', Probability = 0\<rparr>]\<rparr>"
    by (simp add: found_def run)
  have a0: "answer blank 0 (ageURL (Name dmitriy)) = Response 200 (Parsed (JObject [(''age'', JInt 0)])) \<and>
      Decode (Parsed (JObject [(''age'', JInt 0)])) decode_agify = Inr \<lparr>AgifyAge = 0\<rparr>"
    by (simp add: blank_def run)
  have g0: "answer blank 1 (genderURL (Name dmitriy)) =
        Response 200 (Parsed (JObject [(''gender'', JString [])])) \<and>
      Decode (Parsed (JObject [(''gender'', JString [])])) decode_genderize =
        Inr \<lparr>GenderizeGender = []\<rparr>"
    by (simp add: blank_def run)
  have n0: "answer blank 2 (nationalityURL (Name dmitriy)) =
        Response 200 (Parsed (JObject [(''country'', JArray [])])) \<and>
      Decode (Parsed (JObject [(''country'', JArray [])])) decode_nationalize =
        Inr \<lparr>Country = []\<rparr>"
    by (simp add: blank_def run)
  from parsed_success_sets_field_iff_value
      [of found dmitriy "Parsed (JObject [(''age'', JInt 34)])" "\<lparr>AgifyAge = 34\<rparr>"
        "Parsed (JObject [(''gender'', JString ''male'')])" "\<lparr>GenderizeGender = ''male''\<rparr>"
        "Parsed (JObject [(''country'', JArray [JObject [(''country_id'', JString ''RU'')]])])"
        "\<lparr>Country = [\<lparr>CountryID = ''RU'', Probability = 0\<rparr>]\<rparr>"] a g n
  have set: "Age (enriched found dmitriy) = Some 34 \<and>
      Gender (enriched found dmitriy) = Some ''male'' \<and>
      Nationality (enriched found dmitriy) = Some ''RU''"
    by simp
  from parsed_success_sets_field_iff_value
      [of blank dmitriy "Parsed (JObject [(''age'', JInt 0)])" "\<lparr>AgifyAge = 0\<rparr>"
        "Parsed (JObject [(''gender'', JString [])])" "\<lparr>GenderizeGender = []\<rparr>"
        "Parsed (JObject [(''country'', JArray [])])" "\<lparr>Country = []\<rparr>"] a0 g0 n0
  have unset: "Age (enriched blank dmitriy) = None \<and>
      Gender (enriched blank dmitriy) = None \<and>
      Nationality (enriched blank dmitriy) = None"
    by (simp add: dmitriy_fields)
  from set unset show ?thesis
    by (simp add: assigned_eq warnings_eq found_outcomes blank_outcomes)
qed

text \<open>
  C4. When the nationality lookup returns a country array that is not empty, the
  nationality is the country code of its first element, whatever the probabilities are.
  The examples are the array US 0.6, GB 0.4 and an array whose second element is the
  likelier one.
\<close>

theorem first_country_wins:
  "nationalityOutcome w p = Inr r \<Longrightarrow> Country r = c # cs \<Longrightarrow>
   Nationality (enriched w p) = Some (CountryID c)"
  by (simp add: Nationality_enriched applyNationality_def)

theorem first_country_wins_witness:
  "Nationality (enriched usgb dmitriy) = Some ''US'' \<and>
   Nationality (enriched gbLikelier dmitriy) = Some ''US''"
  using first_country_wins
      [of usgb dmitriy
        "\<lparr>Country = [\<lparr>CountryID = ''US'', Probability = 6 / 10\<rparr>,
                     \<lparr>CountryID = ''GB'', Probability = 4 / 10\<rparr>]\<rparr>"
        "\<lparr>CountryID = ''US'', Probability = 6 / 10\<rparr>"
        "[\<lparr>CountryID = ''GB'', Probability = 4 / 10\<rparr>]"]
    first_country_wins
      [of gbLikelier dmitriy
        "\<lparr>Country = [\<lparr>CountryID = ''US'', Probability = 1 / 10\<rparr>,
                     \<lparr>CountryID = ''GB'', Probability = 9 / 10\<rparr>]\<rparr>"
        "\<lparr>CountryID = ''US'', Probability = 1 / 10\<rparr>"
        "[\<lparr>CountryID = ''GB'', Probability = 9 / 10\<rparr>]"]
  by (simp add: usgb_outcomes gbLikelier_outcomes)

text \<open>
  C5. For each lookup, an answer with a status other than 200 has the effect of a
  transport error: the resulting person is the same, all three requests are sent, the
  log has the same levels line by line and the same warnings, among them the warning of
  this lookup, and the field of this lookup keeps the value it had.
\<close>

theorem non200_like_transport_error:
  "s \<noteq> 200 \<Longrightarrow>
   enriched (answerWith w (place l) (Response s b)) p =
     enriched (answerWith w (place l) (TransportError t)) p \<and>
   requested (answerWith w (place l) (Response s b)) p =
     [ageURL (Name p), genderURL (Name p), nationalityURL (Name p)] \<and>
   requested (answerWith w (place l) (TransportError t)) p =
     [ageURL (Name p), genderURL (Name p), nationalityURL (Name p)] \<and>
   map fst (emitted (answerWith w (place l) (Response s b)) p) =
     map fst (emitted (answerWith w (place l) (TransportError t)) p) \<and>
   warnings (answerWith w (place l) (Response s b)) p =
     warnings (answerWith w (place l) (TransportError t)) p \<and>
   l \<in> set (warnings (answerWith w (place l) (Response s b)) p) \<and>
   sameField l (enriched (answerWith w (place l) (Response s b)) p) p"
proof -
  assume s: "s \<noteq> 200"
  let ?a = "answerWith w (place l) (Response s b)"
  let ?b = "answerWith w (place l) (TransportError t)"
  have person: "enriched ?a p = enriched ?b p"
    using s by (cases l)
      (simp_all add: enriched_eq outcome_answerWith outcome_def applyAge_def applyGender_def
        applyNationality_def)
  have levels: "map fst (emitted ?a p) = map fst (emitted ?b p)"
    using s by (cases l)
      (simp_all add: emitted_eq outcome_answerWith outcome_def ageEntries_def
        genderEntries_def nationalityEntries_def)
  have warns: "warnings ?a p = warnings ?b p"
    using s by (cases l) (simp_all add: warnings_eq outcome_answerWith outcome_def)
  have warned: "l \<in> set (warnings ?a p)"
    using s by (cases l) (simp_all add: warnings_eq outcome_answerWith outcome_def)
  have kept: "sameField l (enriched ?a p) p"
    using s by (cases l)
      (simp_all add: Age_enriched Gender_enriched Nationality_enriched outcome_answerWith
        outcome_def applyAge_def applyGender_def applyNationality_def)
  from person levels warns warned kept show ?thesis
    by (simp add: requested_eq)
qed

theorem non200_like_transport_error_witness:
  "enriched (answerWith found 0 (Response 429 Malformed)) ivan =
     enriched (answerWith found 0 (TransportError ''timeout'')) ivan \<and>
   warnings (answerWith found 0 (Response 429 Malformed)) ivan = [AgeLookup] \<and>
   warnings (answerWith found 0 (TransportError ''timeout'')) ivan = [AgeLookup] \<and>
   Age (enriched (answerWith found 0 (Response 429 Malformed)) ivan) = Some 42 \<and>
   Gender (enriched (answerWith found 0 (Response 429 Malformed)) ivan) = Some ''male''"
proof -
  have s: "(429::int) \<noteq> 200" by simp
  from non200_like_transport_error [OF s, of found AgeLookup Malformed ivan "''timeout''"]
  show ?thesis
    by (simp add: warnings_eq outcome_answerWith found_outcomes outcome_def Age_enriched
        Gender_enriched applyAge_def applyGender_def ivan_fields)
qed

text \<open>
  C6. One call sends exactly three requests, one for each lookup, in the order age,
  gender, nationality; the log is the lines of the three lookups one block after the
  other, so a lookup has ended when the next one starts. Replacing the answer to one
  lookup by any other answer, a failure included, changes neither the requests sent nor,
  for the other two lookups, the field, the assignment or the warning.
\<close>

theorem lookups_once_in_order_independent:
  "requested w p = [ageURL (Name p), genderURL (Name p), nationalityURL (Name p)] \<and>
   emitted w p =
     (DebugLevel, EnrichStarted (Name p)) #
     ageEntries (Name p) (ageOutcome w p) @
     genderEntries (Name p) (genderOutcome w p) @
     nationalityEntries (Name p) (nationalityOutcome w p) @
     [(DebugLevel, EnrichFinished (Name p))] \<and>
   requested (answerWith w (place l) r) p = requested w p \<and>
   (l' \<noteq> l \<longrightarrow>
      sameField l' (enriched (answerWith w (place l) r) p) (enriched w p) \<and>
      (l' \<in> set (assigned (answerWith w (place l) r) p)) = (l' \<in> set (assigned w p)) \<and>
      (l' \<in> set (warnings (answerWith w (place l) r) p)) = (l' \<in> set (warnings w p)))"
  by (cases l; cases l')
     (simp_all add: requested_eq emitted_eq Age_enriched Gender_enriched Nationality_enriched
        outcome_answerWith warnings_eq assigned_eq)

theorem lookups_once_in_order_independent_witness:
  "requested scenario dmitriy =
     [''https://api.agify.io/?name=Dmitriy'', ''https://api.genderize.io/?name=Dmitriy'',
      ''https://api.nationalize.io/?name=Dmitriy''] \<and>
   Age (enriched (answerWith scenario 1 (Response 503 Malformed)) dmitriy) = Some 42 \<and>
   Age (enriched scenario dmitriy) = Some 42 \<and>
   Gender (enriched scenario dmitriy) = None \<and>
   Nationality (enriched scenario dmitriy) = Some ''RU''"
  using lookups_once_in_order_independent
    [of scenario dmitriy GenderLookup "Response 503 Malformed" AgeLookup]
  by (simp add: Age_enriched Gender_enriched Nationality_enriched scenario_outcomes
      applyAge_def applyGender_def applyNationality_def dmitriy_def
      ageURL_def genderURL_def nationalityURL_def)

text \<open>
  C7. When all three lookups succeed with zero values (age 0, empty gender, empty
  country array), the person after the call is the person before it, field by field.
\<close>

theorem zero_values_change_nothing:
  "ageOutcome w p = Inr a \<Longrightarrow> AgifyAge a = 0 \<Longrightarrow>
   genderOutcome w p = Inr g \<Longrightarrow> GenderizeGender g = [] \<Longrightarrow>
   nationalityOutcome w p = Inr n \<Longrightarrow> Country n = [] \<Longrightarrow>
   enriched w p = p"
  by (simp add: enriched_eq applyAge_def applyGender_def applyNationality_def)

theorem zero_values_change_nothing_witness:
  "enriched blank ivan = ivan \<and> enriched usgb dmitriy \<noteq> dmitriy"
proof -
  have "enriched blank ivan = ivan"
    by (rule zero_values_change_nothing [OF blank_outcomes(1) _ blank_outcomes(2) _ blank_outcomes(3)])
       simp_all
  moreover have "enriched usgb dmitriy \<noteq> dmitriy"
    by (simp add: enriched_eq usgb_outcomes applyAge_def applyGender_def applyNationality_def
        dmitriy_def)
  ultimately show ?thesis by simp
qed

text \<open>
  C8. The three URLs requested are the fixed prefixes followed by the name as it is:
  nothing is trimmed, no letter changes case, no character is escaped.
\<close>

theorem lookup_urls_verbatim:
  "requested w p =
     [''https://api.agify.io/?name='' @ Name p,
      ''https://api.genderize.io/?name='' @ Name p,
      ''https://api.nationalize.io/?name='' @ Name p]"
  by (simp add: requested_eq ageURL_def genderURL_def nationalityURL_def)

text \<open>
  C9. \<open>EnrichPerson\<close> never clears a field. The identifier, name, surname and
  patronymic are unchanged; each of age, gender and nationality is either its value
  before the call or a value taken from the successful response of its own lookup; a
  field that was present is present afterwards.
\<close>

theorem enrichment_only_adds:
  "ID (enriched w p) = ID p \<and> Name (enriched w p) = Name p \<and>
   Surname (enriched w p) = Surname p \<and> Patronymic (enriched w p) = Patronymic p \<and>
   (case ageOutcome w p of
      Inl e \<Rightarrow> Age (enriched w p) = Age p
    | Inr r \<Rightarrow> Age (enriched w p) = Age p \<or> Age (enriched w p) = Some (AgifyAge r)) \<and>
   (case genderOutcome w p of
      Inl e \<Rightarrow> Gender (enriched w p) = Gender p
    | Inr r \<Rightarrow> Gender (enriched w p) = Gender p \<or>
        Gender (enriched w p) = Some (GenderizeGender r)) \<and>
   (case nationalityOutcome w p of
      Inl e \<Rightarrow> Nationality (enriched w p) = Nationality p
    | Inr r \<Rightarrow> Nationality (enriched w p) = Nationality p \<or>
        Nationality (enriched w p) \<in> set (map (\<lambda>c. Some (CountryID c)) (Country r))) \<and>
   (Age p \<noteq> None \<longrightarrow> Age (enriched w p) \<noteq> None) \<and>
   (Gender p \<noteq> None \<longrightarrow> Gender (enriched w p) \<noteq> None) \<and>
   (Nationality p \<noteq> None \<longrightarrow> Nationality (enriched w p) \<noteq> None)"
proof -
  have frame: "ID (enriched w p) = ID p \<and> Name (enriched w p) = Name p \<and>
      Surname (enriched w p) = Surname p \<and> Patronymic (enriched w p) = Patronymic p"
    by (simp add: enriched_eq applyAge_def applyGender_def applyNationality_def
        split: sum.splits list.splits)
  have age: "case ageOutcome w p of
      Inl e \<Rightarrow> Age (enriched w p) = Age p
    | Inr r \<Rightarrow> Age (enriched w p) = Age p \<or> Age (enriched w p) = Some (AgifyAge r)"
    by (simp add: Age_enriched applyAge_def split: sum.splits)
  have gender: "case genderOutcome w p of
      Inl e \<Rightarrow> Gender (enriched w p) = Gender p
    | Inr r \<Rightarrow> Gender (enriched w p) = Gender p \<or>
        Gender (enriched w p) = Some (GenderizeGender r)"
    by (simp add: Gender_enriched applyGender_def split: sum.splits)
  have nationality: "case nationalityOutcome w p of
      Inl e \<Rightarrow> Nationality (enriched w p) = Nationality p
    | Inr r \<Rightarrow> Nationality (enriched w p) = Nationality p \<or>
        Nationality (enriched w p) \<in> set (map (\<lambda>c. Some (CountryID c)) (Country r))"
    by (simp add: Nationality_enriched applyNationality_def split: sum.splits list.splits)
  have kept: "(Age p \<noteq> None \<longrightarrow> Age (enriched w p) \<noteq> None) \<and>
      (Gender p \<noteq> None \<longrightarrow> Gender (enriched w p) \<noteq> None) \<and>
      (Nationality p \<noteq> None \<longrightarrow> Nationality (enriched w p) \<noteq> None)"
    by (simp add: Age_enriched Gender_enriched Nationality_enriched applyAge_def
        applyGender_def applyNationality_def split: sum.splits list.splits)
  from frame age gender nationality kept show ?thesis by simp
qed

theorem enrichment_only_adds_witness:
  "Name (enriched scenario ivan) = ''Ivan'' \<and> Surname (enriched scenario ivan) = ''Petrov'' \<and>
   Gender ivan = Some ''male'' \<and> Gender (enriched scenario ivan) = Some ''male'' \<and>
   Age (enriched scenario ivan) \<noteq> None \<and> Nationality (enriched scenario ivan) \<noteq> None"
  using enrichment_only_adds [of scenario ivan]
  by (simp add: scenario_outcomes ivan_def)

text \<open>
  C10. A body with status 200 that is a JSON object without the key of the lookup
  decodes to the zero value. The call then gives the same person and the same log, line
  for line, as with a body that holds the key with an explicit zero value: no warning,
  no assignment, the field as it was.
\<close>

theorem missing_field_like_zero_value:
  "\<not> list_ex (matches (tag l)) (map fst ms) \<Longrightarrow>
   enriched (answerWith w (place l) (ok (JObject ms))) p =
     enriched (answerWith w (place l) (ok (JObject [(tag l, zero l)]))) p \<and>
   emitted (answerWith w (place l) (ok (JObject ms))) p =
     emitted (answerWith w (place l) (ok (JObject [(tag l, zero l)]))) p \<and>
   l \<notin> set (warnings (answerWith w (place l) (ok (JObject ms))) p) \<and>
   l \<notin> set (assigned (answerWith w (place l) (ok (JObject ms))) p) \<and>
   sameField l (enriched (answerWith w (place l) (ok (JObject ms))) p) p"
proof -
  assume absent: "\<not> list_ex (matches (tag l)) (map fst ms)"
  let ?a = "answerWith w (place l) (ok (JObject ms))"
  let ?z = "answerWith w (place l) (ok (JObject [(tag l, zero l)]))"
  have same:
    "ageOutcome ?a p = ageOutcome ?z p \<and> genderOutcome ?a p = genderOutcome ?z p \<and>
     nationalityOutcome ?a p = nationalityOutcome ?z p"
    using absent
    by (cases l) (simp_all add: outcome_answerWith outcome_without_field outcome_zero_field)
  have person: "enriched ?a p = enriched ?z p"
    using same by (simp add: enriched_eq)
  have log: "emitted ?a p = emitted ?z p"
    using same by (simp add: emitted_eq)
  have silent: "l \<notin> set (warnings ?a p)"
    using absent
    by (cases l) (simp_all add: warnings_eq outcome_answerWith outcome_without_field)
  have unset: "l \<notin> set (assigned ?a p)"
    using absent
    by (cases l) (simp_all add: assigned_eq outcome_answerWith outcome_without_field)
  have kept: "sameField l (enriched ?a p) p"
    using absent
    by (cases l)
      (simp_all add: Age_enriched Gender_enriched Nationality_enriched outcome_answerWith
        outcome_without_field applyAge_def applyGender_def applyNationality_def)
  from person log silent unset kept show ?thesis by simp
qed

theorem missing_field_like_zero_value_witness:
  "\<not> list_ex (matches ''age'') (map fst [(''name'', JString ''Ivan''), (''count'', JInt 0)]) \<and>
   emitted (answerWith found 0 (ok (JObject [(''name'', JString ''Ivan''), (''count'', JInt 0)]))) ivan =
     emitted (answerWith found 0 (ok (JObject [(''age'', JInt 0)]))) ivan \<and>
   AgeLookup \<notin> set (warnings
     (answerWith found 0 (ok (JObject [(''name'', JString ''Ivan''), (''count'', JInt 0)]))) ivan) \<and>
   Age (enriched
     (answerWith found 0 (ok (JObject [(''name'', JString ''Ivan''), (''count'', JInt 0)]))) ivan) =
     Some 42"
proof -
  have h: "\<not> list_ex (matches (tag AgeLookup))
      (map fst [(''name'', JString ''Ivan''), (''count'', JInt 0)])"
    by (simp add: matches_def foldName_def)
  from missing_field_like_zero_value [OF h, of found ivan, THEN conjunct2] h show ?thesis
    by (simp add: ivan_fields)
qed

end
